theory Spec2Isabelle
  imports Main "HOL-Library.AList"
begin

section \<open>Values produced by \<^verbatim>\<open>JSON.parse\<close>\<close>

text \<open>
  The analysis result of the external model and the flagged statements inside it reach the
  code as whatever \<^verbatim>\<open>JSON.parse\<close> returned; the TypeScript annotations are erased at
  run time. A parsed value is one of the six JSON shapes. Numbers are modelled as integers
  (every score the code computes is one). An object is the list of its own properties in
  insertion order, read with \<open>map_of\<close>; the value \<^verbatim>\<open>undefined\<close> of a missing
  property is \<open>None\<close>.
\<close>

datatype json =
    JNull
  | JBool bool
  | JNum int
  | JStr string
  | JArr "json list"
  | JObj "(string \<times> json) list"

text \<open>
  What can be thrown: the run-time errors of JavaScript and of the browser, and the
  \<^verbatim>\<open>new Error(message)\<close> the code throws itself.
\<close>

datatype error =
    TypeError
  | SyntaxError
  | DOMException
  | Error string

text \<open>JavaScript truthiness of a value that may be \<^verbatim>\<open>undefined\<close>.\<close>

fun truthy :: "json option \<Rightarrow> bool" where
  "truthy None = False"
| "truthy (Some JNull) = False"
| "truthy (Some (JBool b)) = b"
| "truthy (Some (JNum n)) = (n \<noteq> 0)"
| "truthy (Some (JStr s)) = (s \<noteq> [])"
| "truthy (Some (JArr xs)) = True"
| "truthy (Some (JObj kvs)) = True"

text \<open>
  Reading a property \<^verbatim>\<open>v.k\<close> where \<open>k\<close> is not the name of a built-in property of
  the value: a \<^verbatim>\<open>TypeError\<close> on \<^verbatim>\<open>null\<close>, the own property of an object, and
  \<^verbatim>\<open>undefined\<close> on everything else.
\<close>

fun get_prop :: "json \<Rightarrow> string \<Rightarrow> error + json option" where
  "get_prop JNull k = Inl TypeError"
| "get_prop (JObj kvs) k = Inr (map_of kvs k)"
| "get_prop v k = Inr None"

text \<open>Assigning \<^verbatim>\<open>v.k = x\<close> on an object (the only case the code reaches).\<close>

fun set_prop :: "json \<Rightarrow> string \<Rightarrow> json \<Rightarrow> json" where
  "set_prop (JObj kvs) k x = JObj (AList.update k x kvs)"
| "set_prop v k x = v"

text \<open>The test \<^verbatim>\<open>v.length === 0\<close> on a truthy value.\<close>

fun length_is_zero :: "json \<Rightarrow> bool" where
  "length_is_zero (JArr xs) = (xs = [])"
| "length_is_zero (JStr s) = (s = [])"
| "length_is_zero (JObj kvs) = (map_of kvs ''length'' = Some (JNum 0))"
| "length_is_zero v = False"

section \<open>The score calculator (\<^verbatim>\<open>src/lib/gemini.ts\<close>)\<close>

text \<open>
  \<^verbatim>\<open>xs.filter(statement => statement.risk_level === level).length\<close> on the elements of
  an array: the callback runs on every element in order and raises a \<^verbatim>\<open>TypeError\<close>
  on a \<^verbatim>\<open>null\<close> element.
\<close>

fun count_risk_level :: "string \<Rightarrow> json list \<Rightarrow> error + int" where
  "count_risk_level level [] = Inr 0"
| "count_risk_level level (statement # rest) =
     (case get_prop statement ''risk_level'' of
        Inl e \<Rightarrow> Inl e
      | Inr r \<Rightarrow>
          (case count_risk_level level rest of
             Inl e \<Rightarrow> Inl e
           | Inr n \<Rightarrow> Inr (if r = Some (JStr level) then n + 1 else n)))"

text \<open>
  \<^verbatim>\<open>flaggedStatements.filter(...).length\<close>: only an array has a \<^verbatim>\<open>filter\<close> method;
  on any other truthy parsed value the call raises a \<^verbatim>\<open>TypeError\<close>.
\<close>

fun filter_count :: "string \<Rightarrow> json \<Rightarrow> error + int" where
  "filter_count level (JArr xs) = count_risk_level level xs"
| "filter_count level v = Inl TypeError"

definition MAJOR_WEIGHT :: int where "MAJOR_WEIGHT = 15"
definition MINOR_WEIGHT :: int where "MINOR_WEIGHT = 5"
definition BASE_SCORE :: int where "BASE_SCORE = 10"

fun calculateGreenwashingScore :: "json option \<Rightarrow> error + int" where
  "calculateGreenwashingScore None = Inr 0"
| "calculateGreenwashingScore (Some flaggedStatements) =
     (if truthy (Some flaggedStatements) then
        (if length_is_zero flaggedStatements then Inr 0
         else
           (case filter_count ''Major'' flaggedStatements of
              Inl e \<Rightarrow> Inl e
            | Inr majorCount \<Rightarrow>
                (case filter_count ''Minor'' flaggedStatements of
                   Inl e \<Rightarrow> Inl e
                 | Inr minorCount \<Rightarrow>
                     Inr (min (BASE_SCORE + majorCount * MAJOR_WEIGHT
                                + minorCount * MINOR_WEIGHT) 100))))
      else Inr 0)"

text \<open>The risk level of an entry as the specification counts it.\<close>

definition has_risk_level :: "string \<Rightarrow> json \<Rightarrow> bool" where
  "has_risk_level level statement = (get_prop statement ''risk_level'' = Inr (Some (JStr level)))"

section \<open>The analysis intake (\<^verbatim>\<open>analyzeESGReport\<close> in \<^verbatim>\<open>src/lib/gemini.ts\<close>)\<close>

text \<open>
  The body of the inner \<^verbatim>\<open>try\<close> after \<^verbatim>\<open>JSON.parse\<close> has succeeded: when the parsed
  result has a truthy \<^verbatim>\<open>flagged_statements\<close>, its \<^verbatim>\<open>confidence_score\<close> is assigned
  the calculator's score and its \<^verbatim>\<open>classification\<close> the label of that score; otherwise
  the parsed result is returned as the model wrote it.
\<close>

definition override_confidence_score :: "json \<Rightarrow> error + json" where
  "override_confidence_score parsedResult =
     (case get_prop parsedResult ''flagged_statements'' of
        Inl e \<Rightarrow> Inl e
      | Inr flagged_statements \<Rightarrow>
          if truthy flagged_statements then
            (case calculateGreenwashingScore flagged_statements of
               Inl e \<Rightarrow> Inl e
             | Inr confidence_score \<Rightarrow>
                 Inr (set_prop (set_prop parsedResult ''confidence_score'' (JNum confidence_score))
                        ''classification''
                        (if confidence_score > 70 then JStr ''Major'' else JStr ''Minor'')))
          else Inr parsedResult)"

text \<open>
  What the call of the external model produced, as far as the function looks at it: the
  request or the reading of its body threw (the outer \<^verbatim>\<open>catch\<close> throws the same error
  again), the response was not \<^verbatim>\<open>ok\<close> (with its status line), the response held no
  generated text, the cleaned text was not JSON, or the cleaned text parsed to a value.
\<close>

datatype gemini_reply =
    Rejected error
  | NotOk string
  | NoText
  | NotJson
  | Parsed json

definition analyzeESGReport :: "string \<Rightarrow> gemini_reply \<Rightarrow> error + json" where
  "analyzeESGReport pdfText reply =
     (if pdfText = [] then Inl (Error ''PDF text is empty or null.'')
      else
        (case reply of
           Rejected e \<Rightarrow> Inl e
         | NotOk status \<Rightarrow> Inl (Error (''Gemini API error: '' @ status))
         | NoText \<Rightarrow> Inl (Error ''No text was generated by the model.'')
         | NotJson \<Rightarrow>
             Inl (Error ''Failed to get a valid JSON response from the AI. The output was malformed.'')
         | Parsed parsedResult \<Rightarrow>
             (case override_confidence_score parsedResult of
                Inl e \<Rightarrow>
                  Inl (Error ''Failed to get a valid JSON response from the AI. The output was malformed.'')
              | Inr result \<Rightarrow> Inr result)))"

section \<open>The persistent store (\<^verbatim>\<open>src/lib/storage.ts\<close>)\<close>

datatype Classification = Major | Minor

record AnalysisResult =
  classification :: Classification
  confidenceScore :: int

record Section =
  id' :: string
  name :: string
  reports :: "string list"

text \<open>
  The analysis results are kept in a plain JavaScript object used as a dictionary from
  report ids to records. Such an object is the list of its own properties in the order
  \<^verbatim>\<open>Object.keys\<close> and \<^verbatim>\<open>JSON.stringify\<close> enumerate them: the keys that are array
  indices (decimal numerals without a leading zero, below \<open>2\<^sup>3\<^sup>2 - 1\<close>) first, in
  ascending numeric order, then all other keys in the order of their creation.
\<close>

text \<open>The value of a decimal digit, from its character code (\<^verbatim>\<open>0\<close> is 48).\<close>

fun digit :: "char \<Rightarrow> nat option" where
  "digit c =
     (if 48 \<le> (of_char c :: nat) \<and> (of_char c :: nat) \<le> 57
      then Some (of_char c - 48) else None)"

fun digits_value :: "string \<Rightarrow> nat \<Rightarrow> nat option" where
  "digits_value [] n = Some n"
| "digits_value (c # cs) n =
     (case digit c of None \<Rightarrow> None | Some d \<Rightarrow> digits_value cs (10 * n + d))"

fun array_index :: "string \<Rightarrow> nat option" where
  "array_index [] = None"
| "array_index (c # cs) =
     (if c = CHR ''0'' \<and> cs \<noteq> [] then None
      else
        (case digits_value (c # cs) 0 of
           None \<Rightarrow> None
         | Some n \<Rightarrow> if n < 4294967295 then Some n else None))"

text \<open>A new array-index key goes before the first key that is not a smaller array index.\<close>

fun insert_index :: "nat \<Rightarrow> string \<Rightarrow> 'a \<Rightarrow> (string \<times> 'a) list \<Rightarrow> (string \<times> 'a) list" where
  "insert_index i k v [] = [(k, v)]"
| "insert_index i k v ((k', v') # rest) =
     (case array_index k' of
        None \<Rightarrow> (k, v) # (k', v') # rest
      | Some j \<Rightarrow>
          if j < i then (k', v') # insert_index i k v rest
          else (k, v) # (k', v') # rest)"

text \<open>
  Defining the own property \<open>k\<close>: an existing own property keeps its place and takes the
  new value; a new one is placed by the order above.
\<close>

definition define_property :: "string \<Rightarrow> 'a \<Rightarrow> (string \<times> 'a) list \<Rightarrow> (string \<times> 'a) list" where
  "define_property k v obj =
     (case map_of obj k of
        Some old \<Rightarrow> AList.update k v obj
      | None \<Rightarrow>
          (case array_index k of
             None \<Rightarrow> obj @ [(k, v)]
           | Some i \<Rightarrow> insert_index i k v obj))"

text \<open>
  \<^verbatim>\<open>JSON.parse\<close> of the text of an object defines one own property for each member of
  the text, in the order of the text (also for the key \<^verbatim>\<open>__proto__\<close>); of two members
  with the same key the later value stays.
\<close>

fun define_properties :: "(string \<times> 'a) list \<Rightarrow> (string \<times> 'a) list \<Rightarrow> (string \<times> 'a) list" where
  "define_properties [] obj = obj"
| "define_properties ((k, v) # members) obj = define_properties members (define_property k v obj)"

definition parse_object :: "(string \<times> 'a) list \<Rightarrow> (string \<times> 'a) list" where
  "parse_object members = define_properties members []"

text \<open>
  The object inherits the properties of \<^verbatim>\<open>Object.prototype\<close>. All of them are truthy;
  \<^verbatim>\<open>__proto__\<close> is an accessor, the others are writable data properties.
\<close>

definition Object_prototype_keys :: "string list" where
  "Object_prototype_keys =
     [''constructor'', ''__defineGetter__'', ''__defineSetter__'', ''hasOwnProperty'',
      ''__lookupGetter__'', ''__lookupSetter__'', ''isPrototypeOf'', ''propertyIsEnumerable'',
      ''toString'', ''valueOf'', ''__proto__'', ''toLocaleString'']"

datatype 'a property = Own 'a | Inherited string

text \<open>Reading \<^verbatim>\<open>obj[k]\<close>: the own property, else the inherited one, else \<^verbatim>\<open>undefined\<close>.\<close>

definition get_property :: "(string \<times> 'a) list \<Rightarrow> string \<Rightarrow> 'a property option" where
  "get_property obj k =
     (case map_of obj k of
        Some v \<Rightarrow> Some (Own v)
      | None \<Rightarrow> if k \<in> set Object_prototype_keys then Some (Inherited k) else None)"

text \<open>
  The assignment \<^verbatim>\<open>obj[k] = v\<close> of an object \<open>v\<close>. When \<open>k\<close> is \<^verbatim>\<open>__proto__\<close> and
  the object has no own property of that name, the assignment runs the inherited setter,
  which makes \<open>v\<close> the prototype of the object and defines no own property; the own
  properties, which are all that \<^verbatim>\<open>JSON.stringify\<close> writes, stay as they were.
\<close>

definition assign_property :: "string \<Rightarrow> 'a \<Rightarrow> (string \<times> 'a) list \<Rightarrow> (string \<times> 'a) list" where
  "assign_property k v obj =
     (if k = ''__proto__'' \<and> map_of obj k = None then obj else define_property k v obj)"

text \<open>
  \<^verbatim>\<open>localStorage\<close> holds one string under each of the two keys. What the code can see of
  such a string is whether it is there, whether \<^verbatim>\<open>JSON.parse\<close> accepts it, and what it
  holds: the members of the object of analysis results in the order of the text, and the
  elements of the array of sections, typed as the code casts them. An access to the storage
  may throw (storage disabled, quota exceeded); \<open>throwing\<close> lists the accesses that do.
\<close>

datatype 'a stored = Missing | Malformed | Json 'a

datatype key = ANALYSIS_RESULTS_KEY | SECTIONS_KEY

datatype operation = GetItem | SetItem | RemoveItem

record localStorage =
  esg_analysis_results :: "(string \<times> AnalysisResult) list stored"
  esg_report_sections :: "Section list stored"
  throwing :: "(operation \<times> key) set"

definition throws :: "localStorage \<Rightarrow> operation \<Rightarrow> key \<Rightarrow> bool" where
  "throws st operation k = ((operation, k) \<in> throwing st)"

text \<open>
  \<^verbatim>\<open>JSON.parse(localStorage.getItem(ANALYSIS_RESULTS_KEY) || '{}')\<close> and
  \<^verbatim>\<open>JSON.parse(localStorage.getItem(SECTIONS_KEY) || '[]')\<close>.
\<close>

definition read_analysis_results :: "localStorage \<Rightarrow> error + (string \<times> AnalysisResult) list" where
  "read_analysis_results st =
     (if throws st GetItem ANALYSIS_RESULTS_KEY then Inl DOMException
      else
        (case esg_analysis_results st of
           Missing \<Rightarrow> Inr []
         | Malformed \<Rightarrow> Inl SyntaxError
         | Json members \<Rightarrow> Inr (parse_object members)))"

definition read_sections :: "localStorage \<Rightarrow> error + Section list" where
  "read_sections st =
     (if throws st GetItem SECTIONS_KEY then Inl DOMException
      else
        (case esg_report_sections st of
           Missing \<Rightarrow> Inr []
         | Malformed \<Rightarrow> Inl SyntaxError
         | Json sections \<Rightarrow> Inr sections))"

text \<open>
  Every operation takes the storage and returns its result with the storage it leaves
  behind. An operation that can throw returns \<open>Inl\<close> of what it threw.
  \<open>saveAnalysisResult\<close> also assigns the classification in the object its caller
  passed; the model keeps the assigned object as \<open>result'\<close> and stores it.
\<close>

definition saveAnalysisResult ::
  "localStorage \<Rightarrow> string \<Rightarrow> AnalysisResult \<Rightarrow> (error + unit) \<times> localStorage" where
  "saveAnalysisResult st fileId result =
     (case read_analysis_results st of
        Inl e \<Rightarrow> (Inl (Error ''Failed to save analysis result''), st)
      | Inr existingResults \<Rightarrow>
          (let result' = (if confidenceScore result > 55
                          then result\<lparr>classification := Major\<rparr>
                          else result\<lparr>classification := Minor\<rparr>);
               existingResults' = assign_property fileId result' existingResults
           in if throws st SetItem ANALYSIS_RESULTS_KEY
              then (Inl (Error ''Failed to save analysis result''), st)
              else (Inr (), st\<lparr>esg_analysis_results := Json existingResults'\<rparr>)))"

text \<open>
  \<^verbatim>\<open>results[fileId] || null\<close>: a stored record and an inherited property are both truthy,
  so either is returned as it is.
\<close>

definition getAnalysisResult ::
  "localStorage \<Rightarrow> string \<Rightarrow> AnalysisResult property option \<times> localStorage" where
  "getAnalysisResult st fileId =
     (case read_analysis_results st of
        Inl e \<Rightarrow> (None, st)
      | Inr results \<Rightarrow> (get_property results fileId, st))"

definition getAllAnalysisResults ::
  "localStorage \<Rightarrow> (string \<times> AnalysisResult) list \<times> localStorage" where
  "getAllAnalysisResults st =
     (case read_analysis_results st of
        Inl e \<Rightarrow> ([], st)
      | Inr results \<Rightarrow>
          (map (\<lambda>(key, result).
                  (key, if confidenceScore result > 55
                        then result\<lparr>classification := Major\<rparr>
                        else result\<lparr>classification := Minor\<rparr>)) results,
           st))"

definition clearAllAnalysisResults :: "localStorage \<Rightarrow> (error + unit) \<times> localStorage" where
  "clearAllAnalysisResults st =
     (if throws st RemoveItem ANALYSIS_RESULTS_KEY then (Inr (), st)
      else (Inr (), st\<lparr>esg_analysis_results := Missing\<rparr>))"

definition getSections :: "localStorage \<Rightarrow> Section list" where
  "getSections st = (case read_sections st of Inl e \<Rightarrow> [] | Inr sections \<Rightarrow> sections)"

definition removeReportFromAllSections ::
  "localStorage \<Rightarrow> string \<Rightarrow> (error + unit) \<times> localStorage" where
  "removeReportFromAllSections st reportId =
     (let sections = map (\<lambda>section. section\<lparr>reports := filter (\<lambda>i. i \<noteq> reportId) (reports section)\<rparr>)
                         (getSections st)
      in if throws st SetItem SECTIONS_KEY
         then (Inl (Error ''Failed to remove report from all sections''), st)
         else (Inr (), st\<lparr>esg_report_sections := Json sections\<rparr>))"

text \<open>
  \<^verbatim>\<open>section.reports.push(reportId)\<close>, where \<^verbatim>\<open>section\<close> is the element that
  \<^verbatim>\<open>sections.find(s => s.id === sectionId)\<close> returned: the first section of the array
  with that id is the one that changes.
\<close>

fun push_report :: "string \<Rightarrow> string \<Rightarrow> Section list \<Rightarrow> Section list" where
  "push_report sectionId reportId [] = []"
| "push_report sectionId reportId (s # rest) =
     (if id' s = sectionId then s\<lparr>reports := reports s @ [reportId]\<rparr> # rest
      else s # push_report sectionId reportId rest)"

text \<open>
  \<^verbatim>\<open>addReportToSection\<close> reads the sections once, then calls
  \<^verbatim>\<open>removeReportFromAllSections\<close>, which reads them again, filters its own copy and
  writes it. The test \<^verbatim>\<open>section.reports.includes(reportId)\<close>, the \<^verbatim>\<open>push\<close> and the
  second write all work on the copy read before the removal.
\<close>

definition addReportToSection ::
  "localStorage \<Rightarrow> string \<Rightarrow> string \<Rightarrow> (error + unit) \<times> localStorage" where
  "addReportToSection st reportId sectionId =
     (let sections = getSections st
      in case find (\<lambda>s. id' s = sectionId) sections of
           None \<Rightarrow> (Inr (), st)
         | Some section \<Rightarrow>
             (case removeReportFromAllSections st reportId of
                (Inl e, st1) \<Rightarrow> (Inl (Error ''Failed to add report to section''), st1)
              | (Inr u, st1) \<Rightarrow>
                  if reportId \<in> set (reports section) then (Inr (), st1)
                  else if throws st1 SetItem SECTIONS_KEY
                  then (Inl (Error ''Failed to add report to section''), st1)
                  else (Inr (), st1\<lparr>esg_report_sections :=
                                        Json (push_report sectionId reportId sections)\<rparr>)))"

definition deleteReport :: "localStorage \<Rightarrow> string \<Rightarrow> (error + unit) \<times> localStorage" where
  "deleteReport st reportId =
     (case read_analysis_results st of
        Inl e \<Rightarrow> (Inl (Error ''Failed to delete report''), st)
      | Inr results \<Rightarrow>
          (case (case get_property results reportId of
                   None \<Rightarrow> (Inr (), st)
                 | Some r \<Rightarrow>
                     if throws st SetItem ANALYSIS_RESULTS_KEY then (Inl DOMException, st)
                     else (Inr (), st\<lparr>esg_analysis_results := Json (AList.delete reportId results)\<rparr>))
           of
             (Inl e, st1) \<Rightarrow> (Inl (Error ''Failed to delete report''), st1)
           | (Inr u, st1) \<Rightarrow>
               (case removeReportFromAllSections st1 reportId of
                  (Inl e, st2) \<Rightarrow> (Inl (Error ''Failed to delete report''), st2)
                | (Inr u, st2) \<Rightarrow> (Inr (), st2))))"

section \<open>The specification's words, for comparison\<close>

text \<open>The ids of the sections that list a report, in the order of the stored array.\<close>

definition sections_of_report :: "localStorage \<Rightarrow> string \<Rightarrow> string list" where
  "sections_of_report st reportId =
     map id' (filter (\<lambda>s. reportId \<in> set (reports s)) (getSections st))"

text \<open>
  The move the specification describes: \<open>removeFromAllSections\<close>, then \<open>reportId\<close>
  appended to the member list of the target section unless it is already there.
\<close>

definition move_to_section_spec :: "Section list \<Rightarrow> string \<Rightarrow> string \<Rightarrow> Section list" where
  "move_to_section_spec sections reportId sectionId =
     map (\<lambda>s. if id' s = sectionId \<and> reportId \<notin> set (reports s)
               then s\<lparr>reports := reports s @ [reportId]\<rparr> else s)
         (map (\<lambda>s. s\<lparr>reports := filter (\<lambda>i. i \<noteq> reportId) (reports s)\<rparr>) sections)"

text \<open>A run of read operations, each on the storage the one before left.\<close>

datatype read_operation = Get string | GetAll

fun after_reads :: "read_operation list \<Rightarrow> localStorage \<Rightarrow> localStorage" where
  "after_reads [] st = st"
| "after_reads (Get fileId # rest) st = after_reads rest (snd (getAnalysisResult st fileId))"
| "after_reads (GetAll # rest) st = after_reads rest (snd (getAllAnalysisResults st))"

section \<open>Properties of the score calculator\<close>

lemma count_risk_level_eq:
  "JNull \<notin> set xs \<Longrightarrow>
     count_risk_level level xs = Inr (int (length (filter (has_risk_level level) xs)))"
proof (induction xs)
  case Nil
  show ?case by simp
next
  case (Cons x xs)
  from Cons.prems have x: "x \<noteq> JNull" and xs: "JNull \<notin> set xs" by auto
  from x obtain r where r: "get_prop x ''risk_level'' = Inr r"
    by (cases x) auto
  show ?case
    using Cons.IH [OF xs] r by (simp add: has_risk_level_def)
qed

lemma score_of_array:
  assumes "JNull \<notin> set xs"
  shows "calculateGreenwashingScore (Some (JArr xs)) =
           Inr (if xs = [] then 0
                else min (10 + 15 * int (length (filter (has_risk_level ''Major'') xs))
                             + 5 * int (length (filter (has_risk_level ''Minor'') xs))) 100)"
  using assms
  by (simp add: count_risk_level_eq BASE_SCORE_def MAJOR_WEIGHT_def MINOR_WEIGHT_def
        mult.commute)

lemma has_risk_level_not_null: "has_risk_level level x \<Longrightarrow> x \<noteq> JNull"
  by (auto simp: has_risk_level_def)

lemma has_risk_level_Major_Minor:
  "has_risk_level ''Major'' x \<Longrightarrow> \<not> has_risk_level ''Minor'' x"
  by (auto simp: has_risk_level_def)

text \<open>
  Claim C4. For every finite sequence \<open>S\<close> of flagged statements (entries that are not
  \<^verbatim>\<open>null\<close>), \<open>calculateGreenwashingScore\<close> returns a score and raises nothing; the
  score is 0 when \<open>S\<close> is empty and otherwise \<open>min (10 + 15 * majorCount + 5 * minorCount) 100\<close>,
  where the two counters count the entries whose \<^verbatim>\<open>risk_level\<close> is the string
  \<^verbatim>\<open>"Major"\<close> and \<^verbatim>\<open>"Minor"\<close>; an entry with any other or no \<^verbatim>\<open>risk_level\<close> is in
  neither count. The score is an integer between 0 and 100.
\<close>

theorem calculateGreenwashingScore_formula:
  assumes "JNull \<notin> set S"
  shows "\<exists>score. calculateGreenwashingScore (Some (JArr S)) = Inr score
           \<and> score = (if S = [] then 0
                       else min (10 + 15 * int (length (filter (has_risk_level ''Major'') S))
                                    + 5 * int (length (filter (has_risk_level ''Minor'') S))) 100)
           \<and> 0 \<le> score \<and> score \<le> 100"
  unfolding score_of_array [OF assms] by simp

theorem calculateGreenwashingScore_formula_witness:
  "JNull \<notin> set [JObj [(''risk_level'', JStr ''Major'')],
                    JObj [(''statement'', JStr ''net zero''), (''risk_level'', JStr ''Major'')],
                    JObj [(''risk_level'', JStr ''Minor'')],
                    JObj [(''risk_level'', JStr ''Severe'')],
                    JObj [(''reason'', JStr ''no data'')]]
   \<and> calculateGreenwashingScore (Some (JArr
          [JObj [(''risk_level'', JStr ''Major'')],
           JObj [(''statement'', JStr ''net zero''), (''risk_level'', JStr ''Major'')],
           JObj [(''risk_level'', JStr ''Minor'')],
           JObj [(''risk_level'', JStr ''Severe'')],
           JObj [(''reason'', JStr ''no data'')]])) = Inr 45"
  using calculateGreenwashingScore_formula
    [of "[JObj [(''risk_level'', JStr ''Major'')],
          JObj [(''statement'', JStr ''net zero''), (''risk_level'', JStr ''Major'')],
          JObj [(''risk_level'', JStr ''Minor'')],
          JObj [(''risk_level'', JStr ''Severe'')],
          JObj [(''reason'', JStr ''no data'')]]"]
  by (simp add: has_risk_level_def)

text \<open>
  Claim C8. The score is monotone: appending one more entry whose \<^verbatim>\<open>risk_level\<close> is
  \<^verbatim>\<open>"Major"\<close> to a sequence \<open>S\<close> of flagged statements gives a score that is at least
  the score of \<open>S\<close>, and so does appending one more entry whose \<^verbatim>\<open>risk_level\<close> is
  \<^verbatim>\<open>"Minor"\<close>.
\<close>

theorem calculateGreenwashingScore_monotone:
  assumes "JNull \<notin> set S"
    and "has_risk_level ''Major'' major"
    and "has_risk_level ''Minor'' minor"
  shows "\<exists>s a b. calculateGreenwashingScore (Some (JArr S)) = Inr s
           \<and> calculateGreenwashingScore (Some (JArr (S @ [major]))) = Inr a
           \<and> calculateGreenwashingScore (Some (JArr (S @ [minor]))) = Inr b
           \<and> s \<le> a \<and> s \<le> b"
proof -
  from assms have major: "JNull \<notin> set (S @ [major])" and minor: "JNull \<notin> set (S @ [minor])"
    by (auto dest: has_risk_level_not_null)
  have "major \<noteq> JNull" "minor \<noteq> JNull"
    using assms by (auto dest: has_risk_level_not_null)
  show ?thesis
    unfolding score_of_array [OF assms(1)] score_of_array [OF major] score_of_array [OF minor]
    using assms(2,3) has_risk_level_Major_Minor [of major] has_risk_level_Major_Minor [of minor]
    by (auto simp: min_def)
qed

theorem calculateGreenwashingScore_monotone_witness:
  "calculateGreenwashingScore (Some (JArr [JObj [(''risk_level'', JStr ''Minor'')]])) = Inr 15
   \<and> calculateGreenwashingScore (Some (JArr [JObj [(''risk_level'', JStr ''Minor'')],
          JObj [(''risk_level'', JStr ''Major'')]])) = Inr 30
   \<and> calculateGreenwashingScore (Some (JArr [JObj [(''risk_level'', JStr ''Minor'')],
          JObj [(''risk_level'', JStr ''Minor'')]])) = Inr 20"
  using calculateGreenwashingScore_monotone
    [of "[JObj [(''risk_level'', JStr ''Minor'')]]"
        "JObj [(''risk_level'', JStr ''Major'')]" "JObj [(''risk_level'', JStr ''Minor'')]"]
  by (simp add: has_risk_level_def BASE_SCORE_def MAJOR_WEIGHT_def MINOR_WEIGHT_def)

text \<open>
  Claim C10. For every non-empty sequence of flagged statements the score is at least 10,
  also when no entry has the risk level \<^verbatim>\<open>"Major"\<close> or \<^verbatim>\<open>"Minor"\<close>; so no score
  lies strictly between 0 and 10.
\<close>

theorem calculateGreenwashingScore_base:
  assumes "JNull \<notin> set S"
  shows "\<exists>score. calculateGreenwashingScore (Some (JArr S)) = Inr score
           \<and> (S \<noteq> [] \<longrightarrow> 10 \<le> score) \<and> \<not> (0 < score \<and> score < 10)"
  unfolding score_of_array [OF assms] by (simp add: min_def)

theorem calculateGreenwashingScore_base_witness:
  "JNull \<notin> set [JObj [(''risk_level'', JStr ''Unknown'')], JNum 7]
   \<and> [JObj [(''risk_level'', JStr ''Unknown'')], JNum 7] \<noteq> []
   \<and> calculateGreenwashingScore (Some (JArr [JObj [(''risk_level'', JStr ''Unknown'')], JNum 7]))
       = Inr 10"
  using calculateGreenwashingScore_base [of "[JObj [(''risk_level'', JStr ''Unknown'')], JNum 7]"]
  by (simp add: BASE_SCORE_def MAJOR_WEIGHT_def MINOR_WEIGHT_def)

section \<open>Properties of the analysis intake\<close>

text \<open>
  Claim C2, as stated, fails twice. A parsed response without \<^verbatim>\<open>flagged_statements\<close>
  is returned with the score and the label the model wrote (the first equation); and four
  \<^verbatim>\<open>Major\<close> statements give the score 70, which is above 55, with the label
  \<^verbatim>\<open>Minor\<close>, since the label is taken at the threshold 70 (the second equation).
\<close>

theorem analyzeESGReport_counterexample:
  "analyzeESGReport ''report text''
     (Parsed (JObj [(''confidence_score'', JNum 90), (''classification'', JStr ''Major'')]))
     = Inr (JObj [(''confidence_score'', JNum 90), (''classification'', JStr ''Major'')])
   \<and> analyzeESGReport ''report text''
     (Parsed (JObj [(''confidence_score'', JNum 5), (''classification'', JStr ''Major''),
        (''flagged_statements'',
         JArr [JObj [(''risk_level'', JStr ''Major'')], JObj [(''risk_level'', JStr ''Major'')],
               JObj [(''risk_level'', JStr ''Major'')], JObj [(''risk_level'', JStr ''Major'')]])]))
     = Inr (JObj [(''confidence_score'', JNum 70), (''classification'', JStr ''Minor''),
        (''flagged_statements'',
         JArr [JObj [(''risk_level'', JStr ''Major'')], JObj [(''risk_level'', JStr ''Major'')],
               JObj [(''risk_level'', JStr ''Major'')], JObj [(''risk_level'', JStr ''Major'')]])])"
  by (simp add: analyzeESGReport_def override_confidence_score_def
        BASE_SCORE_def MAJOR_WEIGHT_def MINOR_WEIGHT_def)

text \<open>
  Claim C2, amended. There is a label for every score, a function of the score alone, that
  is \<^verbatim>\<open>Major\<close> for every score above 70 and \<^verbatim>\<open>Minor\<close> for every score of at most
  55, such that for every parsed response that is an object whose \<^verbatim>\<open>flagged_statements\<close>
  is an array \<open>S\<close> of flagged statements, \<open>analyzeESGReport\<close> returns the object with
  \<^verbatim>\<open>confidence_score\<close> replaced by the calculator's score of \<open>S\<close> and
  \<^verbatim>\<open>classification\<close> replaced by the label of that score, whatever score and label the
  model supplied; every other property is returned as parsed. A parsed response other than
  \<^verbatim>\<open>null\<close> whose \<^verbatim>\<open>flagged_statements\<close> is missing or falsy is returned as the model
  wrote it.
\<close>

theorem analyzeESGReport_overrides:
  "\<exists>label_of :: int \<Rightarrow> string.
      (\<forall>score. label_of score = ''Major'' \<or> label_of score = ''Minor'')
    \<and> (\<forall>score. 70 < score \<longrightarrow> label_of score = ''Major'')
    \<and> (\<forall>score. score \<le> 55 \<longrightarrow> label_of score = ''Minor'')
    \<and> (\<forall>pdfText props S.
          pdfText \<noteq> [] \<and> map_of props ''flagged_statements'' = Some (JArr S) \<and> JNull \<notin> set S
          \<longrightarrow> (\<exists>score result.
                 calculateGreenwashingScore (Some (JArr S)) = Inr score
               \<and> analyzeESGReport pdfText (Parsed (JObj props)) = Inr (JObj result)
               \<and> map_of result ''confidence_score'' = Some (JNum score)
               \<and> map_of result ''classification'' = Some (JStr (label_of score))
               \<and> (\<forall>k. k \<noteq> ''confidence_score'' \<and> k \<noteq> ''classification''
                      \<longrightarrow> map_of result k = map_of props k)))
    \<and> (\<forall>pdfText parsedResult flagged.
          pdfText \<noteq> [] \<and> get_prop parsedResult ''flagged_statements'' = Inr flagged
            \<and> \<not> truthy flagged
          \<longrightarrow> analyzeESGReport pdfText (Parsed parsedResult) = Inr parsedResult)"
proof (intro exI [of _ "\<lambda>score. if 70 < score then ''Major'' else ''Minor''"] conjI allI impI)
  fix pdfText :: string and props S
  assume a: "pdfText \<noteq> [] \<and> map_of props ''flagged_statements'' = Some (JArr S) \<and> JNull \<notin> set S"
  then obtain score where score: "calculateGreenwashingScore (Some (JArr S)) = Inr score"
    using score_of_array [of S] by blast
  show "\<exists>score result.
          calculateGreenwashingScore (Some (JArr S)) = Inr score
        \<and> analyzeESGReport pdfText (Parsed (JObj props)) = Inr (JObj result)
        \<and> map_of result ''confidence_score'' = Some (JNum score)
        \<and> map_of result ''classification''
            = Some (JStr (if 70 < score then ''Major'' else ''Minor''))
        \<and> (\<forall>k. k \<noteq> ''confidence_score'' \<and> k \<noteq> ''classification''
               \<longrightarrow> map_of result k = map_of props k)"
    using a score
    by (simp add: analyzeESGReport_def override_confidence_score_def update_conv'
          del: calculateGreenwashingScore.simps)
next
  fix pdfText :: string and parsedResult flagged
  assume "pdfText \<noteq> [] \<and> get_prop parsedResult ''flagged_statements'' = Inr flagged
            \<and> \<not> truthy flagged"
  then show "analyzeESGReport pdfText (Parsed parsedResult) = Inr parsedResult"
    by (simp add: analyzeESGReport_def override_confidence_score_def)
qed simp_all

theorem analyzeESGReport_overrides_witness:
  "''report text'' \<noteq> []
   \<and> map_of [(''confidence_score'', JNum 99), (''classification'', JStr ''Major''),
             (''flagged_statements'', JArr [JObj [(''risk_level'', JStr ''Minor'')]])]
        ''flagged_statements'' = Some (JArr [JObj [(''risk_level'', JStr ''Minor'')]])
   \<and> JNull \<notin> set [JObj [(''risk_level'', JStr ''Minor'')]]
   \<and> analyzeESGReport ''report text''
        (Parsed (JObj [(''confidence_score'', JNum 99), (''classification'', JStr ''Major''),
           (''flagged_statements'', JArr [JObj [(''risk_level'', JStr ''Minor'')]])]))
       = Inr (JObj [(''confidence_score'', JNum 15), (''classification'', JStr ''Minor''),
           (''flagged_statements'', JArr [JObj [(''risk_level'', JStr ''Minor'')]])])
   \<and> get_prop (JObj [(''confidence_score'', JNum 99), (''classification'', JStr ''Major'')])
        ''flagged_statements'' = Inr None
   \<and> \<not> truthy None
   \<and> analyzeESGReport ''report text''
        (Parsed (JObj [(''confidence_score'', JNum 99), (''classification'', JStr ''Major'')]))
       = Inr (JObj [(''confidence_score'', JNum 99), (''classification'', JStr ''Major'')])"
proof -
  have replaced: "analyzeESGReport ''report text''
        (Parsed (JObj [(''confidence_score'', JNum 99), (''classification'', JStr ''Major''),
           (''flagged_statements'', JArr [JObj [(''risk_level'', JStr ''Minor'')]])]))
       = Inr (JObj [(''confidence_score'', JNum 15), (''classification'', JStr ''Minor''),
           (''flagged_statements'', JArr [JObj [(''risk_level'', JStr ''Minor'')]])])"
    by (simp add: analyzeESGReport_def override_confidence_score_def
          BASE_SCORE_def MAJOR_WEIGHT_def MINOR_WEIGHT_def)
  from analyzeESGReport_overrides show ?thesis
  proof (elim exE conjE)
    fix label_of :: "int \<Rightarrow> string"
    assume pass: "\<forall>pdfText parsedResult flagged.
          pdfText \<noteq> [] \<and> get_prop parsedResult ''flagged_statements'' = Inr flagged
            \<and> \<not> truthy flagged
          \<longrightarrow> analyzeESGReport pdfText (Parsed parsedResult) = Inr parsedResult"
    have unchanged: "analyzeESGReport ''report text''
        (Parsed (JObj [(''confidence_score'', JNum 99), (''classification'', JStr ''Major'')]))
       = Inr (JObj [(''confidence_score'', JNum 99), (''classification'', JStr ''Major'')])"
      using pass [rule_format, of "''report text''"
          "JObj [(''confidence_score'', JNum 99), (''classification'', JStr ''Major'')]" None]
      by simp
    from unchanged replaced show ?thesis by simp
  qed
qed

section \<open>Properties of objects used as dictionaries\<close>

lemma map_of_insert_index:
  "map_of obj k = None \<Longrightarrow> map_of (insert_index i k v obj) = (map_of obj)(k \<mapsto> v)"
proof (induction obj)
  case Nil
  show ?case by simp
next
  case (Cons p obj)
  obtain k' v' where p: "p = (k', v')" by (cases p)
  from Cons.prems p have k': "k' \<noteq> k" and rest: "map_of obj k = None"
    by (auto split: if_splits)
  show ?case
    using Cons.IH [OF rest] k' p
    by (auto simp: fun_upd_twist split: option.splits)
qed

lemma map_of_define_property:
  "map_of (define_property k v obj) = (map_of obj)(k \<mapsto> v)"
proof (cases "map_of obj k")
  case None
  have "[k \<mapsto> v] ++ map_of obj = (map_of obj)(k \<mapsto> v)"
  proof (rule ext)
    fix x
    show "([k \<mapsto> v] ++ map_of obj) x = ((map_of obj)(k \<mapsto> v)) x"
      using None by (cases "x = k") (simp_all add: map_add_def split: option.splits)
  qed
  with None show ?thesis
    by (simp add: define_property_def map_of_insert_index split: option.splits)
next
  case (Some old)
  then show ?thesis by (simp add: define_property_def update_conv')
qed

lemma keys_insert_index:
  "fst ` set (insert_index i k v obj) = insert k (fst ` set obj)"
proof (induction obj)
  case Nil
  show ?case by simp
next
  case (Cons p obj)
  obtain k' v' where p: "p = (k', v')" by (cases p)
  show ?case
  proof (cases "array_index k'")
    case None
    with p show ?thesis by simp
  next
    case (Some j)
    show ?thesis
    proof (cases "j < i")
      case True
      with Some p Cons.IH show ?thesis by (simp add: insert_commute)
    next
      case False
      with Some p show ?thesis by simp
    qed
  qed
qed

lemma distinct_insert_index:
  "distinct (map fst obj) \<Longrightarrow> k \<notin> fst ` set obj \<Longrightarrow>
     distinct (map fst (insert_index i k v obj))"
proof (induction obj)
  case Nil
  show ?case by simp
next
  case (Cons p obj)
  obtain k' v' where p: "p = (k', v')" by (cases p)
  from Cons.prems p have k': "k' \<noteq> k" "k' \<notin> fst ` set obj"
    and d: "distinct (map fst obj)" and k: "k \<notin> fst ` set obj"
    by auto
  have "k' \<notin> fst ` set (insert_index i k v obj)"
    using k' by (simp add: keys_insert_index)
  with Cons.IH [OF d k] Cons.prems p show ?case
    by (simp split: option.splits)
qed

lemma distinct_define_property:
  "distinct (map fst obj) \<Longrightarrow> distinct (map fst (define_property k v obj))"
  by (auto simp: define_property_def distinct_update distinct_insert_index map_of_eq_None_iff
        split: option.splits)

lemma distinct_define_properties:
  "distinct (map fst obj) \<Longrightarrow> distinct (map fst (define_properties members obj))"
  by (induction members obj rule: define_properties.induct) (simp_all add: distinct_define_property)

lemma map_of_define_properties_distinct:
  "distinct (map fst members) \<Longrightarrow>
     map_of (define_properties members obj) = map_of obj ++ map_of members"
proof (induction members obj rule: define_properties.induct)
  case (1 obj)
  show ?case by simp
next
  case (2 k v members obj)
  from "2.prems" have k: "map_of members k = None" and d: "distinct (map fst members)"
    by (auto simp: map_of_eq_None_iff)
  have "map_of (define_properties members (define_property k v obj))
          = map_of (define_property k v obj) ++ map_of members"
    by (rule "2.IH" [OF d])
  also have "\<dots> = (map_of obj)(k \<mapsto> v) ++ map_of members"
    by (simp only: map_of_define_property)
  also have "\<dots> = map_of obj ++ map_of ((k, v) # members)"
  proof (rule ext)
    fix x
    show "((map_of obj)(k \<mapsto> v) ++ map_of members) x
            = (map_of obj ++ map_of ((k, v) # members)) x"
      using k by (cases "x = k") (simp_all add: map_add_def split: option.splits)
  qed
  finally show ?case by (simp only: define_properties.simps)
qed

lemma parse_object_distinct: "distinct (map fst (parse_object members))"
  by (simp add: parse_object_def distinct_define_properties)

lemma map_of_parse_object_again:
  "distinct (map fst obj) \<Longrightarrow> map_of (parse_object obj) = map_of obj"
  by (simp add: parse_object_def map_of_define_properties_distinct)

lemmas object_defs =
  read_analysis_results_def throws_def parse_object_def define_property_def
  assign_property_def get_property_def Object_prototype_keys_def

section \<open>Properties of the persistent store\<close>

lemma getAllAnalysisResults_recomputes:
  "(k, r) \<in> set (fst (getAllAnalysisResults st)) \<Longrightarrow>
     (classification r = Major) = (confidenceScore r > 55)"
  by (auto simp: getAllAnalysisResults_def split: sum.splits if_splits)

text \<open>
  Claim C1. Every record that \<open>getAllAnalysisResults\<close> returns has its classification
  recomputed from its score (\<open>getAllAnalysisResults_recomputes\<close>), but \<open>getAnalysisResult\<close>
  returns the stored record as it is: on a store whose record for \<^verbatim>\<open>r1\<close> has the score
  60 and the stored classification \<^verbatim>\<open>Minor\<close>, it returns \<^verbatim>\<open>Minor\<close> with the score 60,
  where the claim requires \<^verbatim>\<open>Major\<close>; \<open>getAllAnalysisResults\<close> returns \<^verbatim>\<open>Major\<close> for
  the same record of the same store.
\<close>

theorem getAnalysisResult_keeps_stored_classification:
  "fst (getAnalysisResult
          \<lparr>esg_analysis_results = Json [(''r1'', \<lparr>classification = Minor, confidenceScore = 60\<rparr>)],
           esg_report_sections = Missing, throwing = {}\<rparr> ''r1'')
     = Some (Own \<lparr>classification = Minor, confidenceScore = 60\<rparr>)
   \<and> fst (getAllAnalysisResults
          \<lparr>esg_analysis_results = Json [(''r1'', \<lparr>classification = Minor, confidenceScore = 60\<rparr>)],
           esg_report_sections = Missing, throwing = {}\<rparr>)
     = [(''r1'', \<lparr>classification = Major, confidenceScore = 60\<rparr>)]"
  by (simp add: getAnalysisResult_def getAllAnalysisResults_def object_defs)

text \<open>
  On a storage that can be read and written and whose stored results parse,
  \<open>saveAnalysisResult\<close> returns normally for every report id other than \<^verbatim>\<open>__proto__\<close>
  and every integer score; the record then read for that id has that score and the
  classification \<^verbatim>\<open>Major\<close> when the score is above 55 and \<^verbatim>\<open>Minor\<close> otherwise,
  whatever classification the caller supplied, and what is read for every other id is what
  was read before.
\<close>

lemma saveAnalysisResult_stores:
  assumes "\<not> throws st GetItem ANALYSIS_RESULTS_KEY"
    and "\<not> throws st SetItem ANALYSIS_RESULTS_KEY"
    and "esg_analysis_results st \<noteq> Malformed"
    and "reportId \<noteq> ''__proto__''"
  shows "fst (saveAnalysisResult st reportId \<lparr>classification = supplied, confidenceScore = score\<rparr>)
           = Inr ()
         \<and> fst (getAnalysisResult
                  (snd (saveAnalysisResult st reportId
                          \<lparr>classification = supplied, confidenceScore = score\<rparr>)) reportId)
             = Some (Own \<lparr>classification = (if score > 55 then Major else Minor),
                           confidenceScore = score\<rparr>)
         \<and> (\<forall>k. k \<noteq> reportId \<longrightarrow>
               fst (getAnalysisResult
                      (snd (saveAnalysisResult st reportId
                              \<lparr>classification = supplied, confidenceScore = score\<rparr>)) k)
                 = fst (getAnalysisResult st k))"
proof -
  obtain existing where existing: "read_analysis_results st = Inr existing"
    and d: "distinct (map fst existing)"
    using assms(1,3)
    by (cases "esg_analysis_results st")
       (auto simp: read_analysis_results_def parse_object_distinct)
  define r where "r = \<lparr>classification = (if score > 55 then Major else Minor), confidenceScore = score\<rparr>"
  have save: "saveAnalysisResult st reportId \<lparr>classification = supplied, confidenceScore = score\<rparr>
      = (Inr (), st\<lparr>esg_analysis_results := Json (define_property reportId r existing)\<rparr>)"
    using existing assms(2,4) by (simp add: saveAnalysisResult_def assign_property_def r_def)
  have d': "distinct (map fst (define_property reportId r existing))"
    using d by (rule distinct_define_property)
  have read: "read_analysis_results (st\<lparr>esg_analysis_results := Json (define_property reportId r existing)\<rparr>)
      = Inr (parse_object (define_property reportId r existing))"
    using assms(1) by (simp add: read_analysis_results_def throws_def)
  have m: "map_of (parse_object (define_property reportId r existing))
      = (map_of existing)(reportId \<mapsto> r)"
    by (simp add: map_of_parse_object_again [OF d'] map_of_define_property)
  show ?thesis
    unfolding save
    using existing read m
    by (simp add: getAnalysisResult_def get_property_def r_def)
qed

text \<open>
  A new key that is an array index is stored before the larger array indices and before
  all other keys; an existing key keeps its place.
\<close>

lemma saveAnalysisResult_key_order:
  "saveAnalysisResult
     \<lparr>esg_analysis_results = Json [(''10'', \<lparr>classification = Minor, confidenceScore = 15\<rparr>),
                                    (''r1'', \<lparr>classification = Minor, confidenceScore = 20\<rparr>)],
      esg_report_sections = Missing, throwing = {}\<rparr>
     ''9'' \<lparr>classification = Minor, confidenceScore = 85\<rparr>
   = (Inr (),
      \<lparr>esg_analysis_results = Json [(''9'', \<lparr>classification = Major, confidenceScore = 85\<rparr>),
                                     (''10'', \<lparr>classification = Minor, confidenceScore = 15\<rparr>),
                                     (''r1'', \<lparr>classification = Minor, confidenceScore = 20\<rparr>)],
       esg_report_sections = Missing, throwing = {}\<rparr>)"
  by (simp add: saveAnalysisResult_def object_defs)

lemma saveAnalysisResult_replaces:
  "saveAnalysisResult
     \<lparr>esg_analysis_results = Json [(''r1'', \<lparr>classification = Minor, confidenceScore = 15\<rparr>)],
      esg_report_sections = Missing, throwing = {}\<rparr>
     ''r1'' \<lparr>classification = Minor, confidenceScore = 85\<rparr>
   = (Inr (),
      \<lparr>esg_analysis_results = Json [(''r1'', \<lparr>classification = Major, confidenceScore = 85\<rparr>)],
       esg_report_sections = Missing, throwing = {}\<rparr>)"
  by (simp add: saveAnalysisResult_def object_defs)


text \<open>
  Claim C6. When reading the storage throws, or the stored string does not parse,
  \<open>getAnalysisResult\<close> returns \<^verbatim>\<open>null\<close> and \<open>getAllAnalysisResults\<close> the empty
  mapping; neither throws.
\<close>

theorem reads_degrade:
  assumes "throws st GetItem ANALYSIS_RESULTS_KEY \<or> esg_analysis_results st = Malformed"
  shows "fst (getAnalysisResult st reportId) = None \<and> fst (getAllAnalysisResults st) = []"
  using assms
  by (auto simp: getAnalysisResult_def getAllAnalysisResults_def read_analysis_results_def)

theorem reads_degrade_witness:
  "(throws \<lparr>esg_analysis_results = Malformed, esg_report_sections = Missing, throwing = {}\<rparr>
      GetItem ANALYSIS_RESULTS_KEY
    \<or> esg_analysis_results
         \<lparr>esg_analysis_results = Malformed, esg_report_sections = Missing, throwing = {}\<rparr>
        = Malformed)
   \<and> getAnalysisResult
        \<lparr>esg_analysis_results = Malformed, esg_report_sections = Missing, throwing = {}\<rparr> ''r1''
       = (None, \<lparr>esg_analysis_results = Malformed, esg_report_sections = Missing, throwing = {}\<rparr>)
   \<and> getAllAnalysisResults
        \<lparr>esg_analysis_results = Malformed, esg_report_sections = Missing, throwing = {}\<rparr>
       = ([], \<lparr>esg_analysis_results = Malformed, esg_report_sections = Missing, throwing = {}\<rparr>)
   \<and> getAnalysisResult
        \<lparr>esg_analysis_results = Json [(''r1'', \<lparr>classification = Major, confidenceScore = 85\<rparr>)],
         esg_report_sections = Missing, throwing = {(GetItem, ANALYSIS_RESULTS_KEY)}\<rparr> ''r1''
       = (None,
          \<lparr>esg_analysis_results = Json [(''r1'', \<lparr>classification = Major, confidenceScore = 85\<rparr>)],
           esg_report_sections = Missing, throwing = {(GetItem, ANALYSIS_RESULTS_KEY)}\<rparr>)"
  using reads_degrade
    [of "\<lparr>esg_analysis_results = Malformed, esg_report_sections = Missing, throwing = {}\<rparr>" "''r1''"]
    reads_degrade
    [of "\<lparr>esg_analysis_results = Json [(''r1'', \<lparr>classification = Major, confidenceScore = 85\<rparr>)],
          esg_report_sections = Missing, throwing = {(GetItem, ANALYSIS_RESULTS_KEY)}\<rparr>" "''r1''"]
  by (simp add: getAnalysisResult_def getAllAnalysisResults_def object_defs)

text \<open>
  Claim C9. \<open>getAnalysisResult\<close> and \<open>getAllAnalysisResults\<close> leave the storage as it
  was, and so does any run of them: the classification that \<open>getAllAnalysisResults\<close>
  recomputes is in the value it returns and is not written back. A stored record whose
  classification disagrees with its score is still stored unchanged after the reads.
\<close>

theorem reads_leave_store:
  "snd (getAnalysisResult st reportId) = st \<and> snd (getAllAnalysisResults st) = st
   \<and> after_reads rs st = st"
proof -
  have get: "snd (getAnalysisResult s k) = s" for s k
    by (simp add: getAnalysisResult_def split: sum.splits)
  have all: "snd (getAllAnalysisResults s) = s" for s
    by (simp add: getAllAnalysisResults_def split: sum.splits)
  have "after_reads rs st = st"
    by (induction rs st rule: after_reads.induct) (simp_all add: get all)
  with get all show ?thesis by simp
qed

theorem reads_leave_store_witness:
  "after_reads [GetAll, Get ''r1'', GetAll]
     \<lparr>esg_analysis_results = Json [(''r1'', \<lparr>classification = Minor, confidenceScore = 60\<rparr>)],
      esg_report_sections = Missing, throwing = {}\<rparr>
   = \<lparr>esg_analysis_results = Json [(''r1'', \<lparr>classification = Minor, confidenceScore = 60\<rparr>)],
      esg_report_sections = Missing, throwing = {}\<rparr>
   \<and> fst (getAllAnalysisResults
       \<lparr>esg_analysis_results = Json [(''r1'', \<lparr>classification = Minor, confidenceScore = 60\<rparr>)],
        esg_report_sections = Missing, throwing = {}\<rparr>)
     = [(''r1'', \<lparr>classification = Major, confidenceScore = 60\<rparr>)]"
  using reads_leave_store
    [of "\<lparr>esg_analysis_results = Json [(''r1'', \<lparr>classification = Minor, confidenceScore = 60\<rparr>)],
          esg_report_sections = Missing, throwing = {}\<rparr>" "''r1''" "[GetAll, Get ''r1'', GetAll]"]
  by (simp add: getAllAnalysisResults_def object_defs)

text \<open>
  Claim C7, as stated, fails for \<open>clearAllAnalysisResults\<close>: when
  \<^verbatim>\<open>localStorage.removeItem\<close> throws, the function catches the error, logs it and returns
  normally, and the stored results are still there.
\<close>

theorem clearAllAnalysisResults_counterexample:
  "clearAllAnalysisResults
     \<lparr>esg_analysis_results = Json [(''r1'', \<lparr>classification = Major, confidenceScore = 85\<rparr>)],
      esg_report_sections = Missing, throwing = {(RemoveItem, ANALYSIS_RESULTS_KEY)}\<rparr>
   = (Inr (),
      \<lparr>esg_analysis_results = Json [(''r1'', \<lparr>classification = Major, confidenceScore = 85\<rparr>)],
       esg_report_sections = Missing, throwing = {(RemoveItem, ANALYSIS_RESULTS_KEY)}\<rparr>)"
  by (simp add: clearAllAnalysisResults_def throws_def)

lemma removeReportFromAllSections_throws:
  "throws st SetItem SECTIONS_KEY \<Longrightarrow>
     removeReportFromAllSections st reportId
       = (Inl (Error ''Failed to remove report from all sections''), st)"
  by (simp add: removeReportFromAllSections_def Let_def)

text \<open>
  Claim C7, amended. \<open>saveAnalysisResult\<close> and \<open>deleteReport\<close> throw to their caller
  whenever a write to the storage that they attempt throws: \<open>saveAnalysisResult\<close> whenever
  writing the results throws, \<open>deleteReport\<close> whenever writing the sections throws or the
  report has a stored result and writing the results throws. \<open>clearAllAnalysisResults\<close>
  never throws: it catches a failure of the removal and returns normally.
\<close>

theorem write_failures_surface:
  "(throws st SetItem ANALYSIS_RESULTS_KEY \<longrightarrow>
      saveAnalysisResult st reportId result = (Inl (Error ''Failed to save analysis result''), st))
   \<and> (throws st SetItem SECTIONS_KEY
        \<or> (throws st SetItem ANALYSIS_RESULTS_KEY
            \<and> fst (getAnalysisResult st reportId) \<noteq> None) \<longrightarrow>
      fst (deleteReport st reportId) = Inl (Error ''Failed to delete report''))
   \<and> fst (clearAllAnalysisResults st) = Inr ()"
  by (auto simp: saveAnalysisResult_def deleteReport_def clearAllAnalysisResults_def
        getAnalysisResult_def removeReportFromAllSections_def Let_def throws_def
        split: sum.splits option.splits prod.splits if_splits)

theorem write_failures_surface_witness:
  "throws \<lparr>esg_analysis_results = Json [(''r1'', \<lparr>classification = Major, confidenceScore = 85\<rparr>)],
           esg_report_sections = Missing,
           throwing = {(SetItem, ANALYSIS_RESULTS_KEY), (SetItem, SECTIONS_KEY)}\<rparr>
      SetItem ANALYSIS_RESULTS_KEY
   \<and> throws \<lparr>esg_analysis_results = Json [(''r1'', \<lparr>classification = Major, confidenceScore = 85\<rparr>)],
           esg_report_sections = Missing,
           throwing = {(SetItem, ANALYSIS_RESULTS_KEY), (SetItem, SECTIONS_KEY)}\<rparr>
      SetItem SECTIONS_KEY
   \<and> saveAnalysisResult
        \<lparr>esg_analysis_results = Json [(''r1'', \<lparr>classification = Major, confidenceScore = 85\<rparr>)],
         esg_report_sections = Missing,
         throwing = {(SetItem, ANALYSIS_RESULTS_KEY), (SetItem, SECTIONS_KEY)}\<rparr>
        ''r1'' \<lparr>classification = Minor, confidenceScore = 30\<rparr>
       = (Inl (Error ''Failed to save analysis result''),
          \<lparr>esg_analysis_results = Json [(''r1'', \<lparr>classification = Major, confidenceScore = 85\<rparr>)],
           esg_report_sections = Missing,
           throwing = {(SetItem, ANALYSIS_RESULTS_KEY), (SetItem, SECTIONS_KEY)}\<rparr>)
   \<and> fst (deleteReport
        \<lparr>esg_analysis_results = Json [(''r1'', \<lparr>classification = Major, confidenceScore = 85\<rparr>)],
         esg_report_sections = Missing,
         throwing = {(SetItem, ANALYSIS_RESULTS_KEY), (SetItem, SECTIONS_KEY)}\<rparr> ''r1'')
       = Inl (Error ''Failed to delete report'')"
  using write_failures_surface
    [of "\<lparr>esg_analysis_results = Json [(''r1'', \<lparr>classification = Major, confidenceScore = 85\<rparr>)],
          esg_report_sections = Missing,
          throwing = {(SetItem, ANALYSIS_RESULTS_KEY), (SetItem, SECTIONS_KEY)}\<rparr>"
        "''r1''" "\<lparr>classification = Minor, confidenceScore = 30\<rparr>"]
  by (simp add: throws_def)

text \<open>
  \<open>deleteReport\<close> also writes the results, and throws when that write throws, for an id
  that has no stored result but names an inherited property, since the test
  \<^verbatim>\<open>results[reportId]\<close> is truthy for it.
\<close>

lemma deleteReport_inherited_key:
  "deleteReport
     \<lparr>esg_analysis_results = Json [(''r1'', \<lparr>classification = Major, confidenceScore = 85\<rparr>)],
      esg_report_sections = Missing, throwing = {(SetItem, ANALYSIS_RESULTS_KEY)}\<rparr> ''constructor''
   = (Inl (Error ''Failed to delete report''),
      \<lparr>esg_analysis_results = Json [(''r1'', \<lparr>classification = Major, confidenceScore = 85\<rparr>)],
       esg_report_sections = Missing, throwing = {(SetItem, ANALYSIS_RESULTS_KEY)}\<rparr>)"
  by (simp add: deleteReport_def object_defs)

text \<open>
  Claim C5. \<open>addReportToSection\<close> does not move the report. Starting from two empty
  sections \<^verbatim>\<open>a\<close> and \<^verbatim>\<open>b\<close>, adding report \<^verbatim>\<open>r1\<close> to \<^verbatim>\<open>a\<close> and then to
  \<^verbatim>\<open>b\<close> leaves \<^verbatim>\<open>r1\<close> in both sections: the second write stores the copy of the
  sections read before the removal, with \<^verbatim>\<open>r1\<close> appended to \<^verbatim>\<open>b\<close>. The move the
  specification describes leaves \<^verbatim>\<open>r1\<close> in \<^verbatim>\<open>b\<close> only.
\<close>

theorem addReportToSection_two_sections:
  "addReportToSection
     (snd (addReportToSection
        \<lparr>esg_analysis_results = Missing,
         esg_report_sections = Json [\<lparr>id' = ''a'', name = ''A'', reports = []\<rparr>,
                                     \<lparr>id' = ''b'', name = ''B'', reports = []\<rparr>],
         throwing = {}\<rparr> ''r1'' ''a'')) ''r1'' ''b''
   = (Inr (),
      \<lparr>esg_analysis_results = Missing,
       esg_report_sections = Json [\<lparr>id' = ''a'', name = ''A'', reports = [''r1'']\<rparr>,
                                   \<lparr>id' = ''b'', name = ''B'', reports = [''r1'']\<rparr>],
       throwing = {}\<rparr>)
   \<and> sections_of_report
       \<lparr>esg_analysis_results = Missing,
        esg_report_sections = Json [\<lparr>id' = ''a'', name = ''A'', reports = [''r1'']\<rparr>,
                                    \<lparr>id' = ''b'', name = ''B'', reports = [''r1'']\<rparr>],
        throwing = {}\<rparr> ''r1'' = [''a'', ''b'']
   \<and> move_to_section_spec [\<lparr>id' = ''a'', name = ''A'', reports = [''r1'']\<rparr>,
                            \<lparr>id' = ''b'', name = ''B'', reports = []\<rparr>] ''r1'' ''b''
       = [\<lparr>id' = ''a'', name = ''A'', reports = []\<rparr>,
          \<lparr>id' = ''b'', name = ''B'', reports = [''r1'']\<rparr>]"
  by (simp add: addReportToSection_def removeReportFromAllSections_def getSections_def
        read_sections_def throws_def sections_of_report_def move_to_section_spec_def)

text \<open>
  The same stale copy has a second effect: adding a report to the section it is already in
  removes it from every section, because the removal is written and the membership test on
  the stale copy then skips the write that would put the report back.
\<close>

lemma addReportToSection_same_section:
  "addReportToSection
     \<lparr>esg_analysis_results = Missing,
      esg_report_sections = Json [\<lparr>id' = ''a'', name = ''A'', reports = [''r1'']\<rparr>],
      throwing = {}\<rparr> ''r1'' ''a''
   = (Inr (),
      \<lparr>esg_analysis_results = Missing,
       esg_report_sections = Json [\<lparr>id' = ''a'', name = ''A'', reports = []\<rparr>],
       throwing = {}\<rparr>)"
  by (simp add: addReportToSection_def removeReportFromAllSections_def getSections_def
        read_sections_def throws_def)

end
